theory Spec2Isabelle
  imports Complex_Main "HOL-Library.Sublist" "HOL-Library.List_Lexorder" "HOL-Library.Char_ord"
begin

section \<open>Values shared by the fetcher and the importer\<close>

text \<open>
  Both scripts handle the values that \<^verbatim>\<open>json.loads\<close> and \<^verbatim>\<open>response.json()\<close> return.
  A JSON number is a Python \<^verbatim>\<open>int\<close> (unbounded) or a \<^verbatim>\<open>float\<close>; floats are carried
  as reals, because the program only moves them from one place to another. A JSON object
  is a Python \<^verbatim>\<open>dict\<close>: an association list in insertion order, looked up by key.
\<close>

datatype json =
    JNull
  | JBool bool
  | JInt int
  | JFloat real
  | JStr string
  | JArr "json list"
  | JObj "(string \<times> json) list"

text \<open>The exceptions that end a run. \<^verbatim>\<open>sys.exit(1)\<close> raises \<^verbatim>\<open>SystemExit\<close>.\<close>

datatype error =
    KeyError string
  | KeyError_0
  | IndexError
  | TypeError
  | ValueError
  | OverflowError
  | JSONDecodeError
  | InterfaceError
  | OperationalError
  | ValidationError
  | FileNotFoundError
  | ConnectionError
  | HTTPError nat
  | SystemExit nat

definition bind_err :: "error + 'a \<Rightarrow> ('a \<Rightarrow> error + 'b) \<Rightarrow> error + 'b" where
  "bind_err m f = (case m of Inl e \<Rightarrow> Inl e | Inr x \<Rightarrow> f x)"

text \<open>\<^verbatim>\<open>obj[key]\<close> with a string key: only a dict can be indexed by a string.\<close>

fun getitem :: "json \<Rightarrow> string \<Rightarrow> error + json" where
  "getitem (JObj kvs) k = (case map_of kvs k of None \<Rightarrow> Inl (KeyError k) | Some v \<Rightarrow> Inr v)"
| "getitem _ k = Inl TypeError"

text \<open>
  Iterating a value, as \<^verbatim>\<open>zip\<close> and a comprehension do: a list yields its elements, a
  dict its keys, a string its characters; anything else is not iterable.
\<close>

fun py_iter :: "json \<Rightarrow> error + json list" where
  "py_iter (JArr xs) = Inr xs"
| "py_iter (JObj kvs) = Inr (map (\<lambda>kv. JStr (fst kv)) kvs)"
| "py_iter (JStr s) = Inr (map (\<lambda>c. JStr [c]) s)"
| "py_iter _ = Inl TypeError"

section \<open>The importer (import_sqlite.py)\<close>

text \<open>
  The functions of this section follow \<^verbatim>\<open>src/src/import_sqlite.py\<close>, the current importer.
  The older copy \<^verbatim>\<open>src/import_sqlite.py\<close> has the same statements, the same loop over the
  day files and the same \<^verbatim>\<open>zip\<close>; it lacks only the two tests that skip a plain file
  among the accounts and an ignored name among the metering points.

  A row is the parameter tuple that \<^verbatim>\<open>INSERT_SQL\<close> binds to the columns
  \<^verbatim>\<open>(timestamp, metered, estimated, metered_peak, estimated_peak, mean_profile)\<close>. The
  surrogate \<^verbatim>\<open>id\<close> column is assigned by the storage engine; the program never supplies
  or reads it, so it is not part of a row here. The timestamp type \<open>'ts\<close> is the value
  under which the unique index compares two timestamps.
\<close>

datatype sql_param = PNone | PInt int | PFloat real | PStr string

type_synonym 'ts row = "'ts \<times> sql_param \<times> sql_param \<times> sql_param \<times> sql_param \<times> sql_param"

text \<open>The table \<^verbatim>\<open>consumption_data\<close>, in insertion order. A table is always one that
  \<^verbatim>\<open>_check_database\<close> created, so it has the unique index on \<^verbatim>\<open>timestamp\<close>.\<close>

type_synonym 'ts store = "'ts row list"

definition timestamps :: "'ts store \<Rightarrow> 'ts set" where
  "timestamps t = fst ` set t"

text \<open>
  \<^verbatim>\<open>INSERT INTO consumption_data (...) VALUES (?, ?, ?, ?, ?, ?) ON CONFLICT(timestamp) DO NOTHING\<close>
  for one parameter tuple.
\<close>

definition insert_row :: "'ts row \<Rightarrow> 'ts store \<Rightarrow> 'ts store" where
  "insert_row r t = (if fst r \<in> timestamps t then t else t @ [r])"

text \<open>
  Binding one Python value to a statement parameter: \<^verbatim>\<open>None\<close>, \<^verbatim>\<open>int\<close> (also
  \<^verbatim>\<open>bool\<close>, its subclass), \<^verbatim>\<open>float\<close> and \<^verbatim>\<open>str\<close> are supported; an \<^verbatim>\<open>int\<close>
  must fit 64 bits; a list or a dict cannot be bound (\<^verbatim>\<open>sqlite3\<close> raises
  \<^verbatim>\<open>InterfaceError\<close>, \<^verbatim>\<open>ProgrammingError\<close> in later versions).
\<close>

fun bind_param :: "json \<Rightarrow> error + sql_param" where
  "bind_param JNull = Inr PNone"
| "bind_param (JBool b) = Inr (PInt (if b then 1 else 0))"
| "bind_param (JInt i) =
     (if - (2 ^ 63) \<le> i \<and> i < 2 ^ 63 then Inr (PInt i) else Inl OverflowError)"
| "bind_param (JFloat x) = Inr (PFloat x)"
| "bind_param (JStr s) = Inr (PStr s)"
| "bind_param (JArr xs) = Inl InterfaceError"
| "bind_param (JObj kvs) = Inl InterfaceError"

text \<open>
  \<^verbatim>\<open>[datetime.datetime.fromisoformat(d) for d in json_data["peakDemandTimes"]]\<close>: the
  library parser is a parameter \<open>fromiso\<close> (\<open>None\<close> where it raises \<^verbatim>\<open>ValueError\<close>); an
  entry that is not a string raises \<^verbatim>\<open>TypeError\<close>.
\<close>

fun parse_times :: "(string \<Rightarrow> 'ts option) \<Rightarrow> json list \<Rightarrow> error + 'ts list" where
  "parse_times fromiso [] = Inr []"
| "parse_times fromiso (JStr s # ds) =
     (case fromiso s of
        None \<Rightarrow> Inl ValueError
      | Some t \<Rightarrow> bind_err (parse_times fromiso ds) (\<lambda>ts. Inr (t # ts)))"
| "parse_times fromiso (_ # ds) = Inl TypeError"

text \<open>
  \<^verbatim>\<open>data = list(zip([...], json_data["meteredValues"], ..., json_data["meanProfile"]))\<close>.
  The six arguments are evaluated left to right, then \<^verbatim>\<open>zip\<close> takes an iterator of each,
  then the tuples are drawn until the shortest iterator ends.
\<close>

definition day_data ::
  "(string \<Rightarrow> 'ts option) \<Rightarrow> json \<Rightarrow>
     error + ('ts \<times> json \<times> json \<times> json \<times> json \<times> json) list" where
  "day_data fromiso json_data =
     bind_err (getitem json_data ''peakDemandTimes'') (\<lambda>pt.
     bind_err (py_iter pt) (\<lambda>ds.
     bind_err (parse_times fromiso ds) (\<lambda>ts.
     bind_err (getitem json_data ''meteredValues'') (\<lambda>mv.
     bind_err (getitem json_data ''estimatedValues'') (\<lambda>ev.
     bind_err (getitem json_data ''meteredPeakDemands'') (\<lambda>mp.
     bind_err (getitem json_data ''estimatedPeakDemands'') (\<lambda>ep.
     bind_err (getitem json_data ''meanProfile'') (\<lambda>mn.
     bind_err (py_iter mv) (\<lambda>mvs.
     bind_err (py_iter ev) (\<lambda>evs.
     bind_err (py_iter mp) (\<lambda>mps.
     bind_err (py_iter ep) (\<lambda>eps.
     bind_err (py_iter mn) (\<lambda>mns.
       Inr (zip ts (zip mvs (zip evs (zip mps (zip eps mns))))))))))))))))))"

text \<open>Binding the parameters of one tuple, and of all tuples in order.\<close>

fun bind_row :: "('ts \<times> json \<times> json \<times> json \<times> json \<times> json) \<Rightarrow> error + 'ts row" where
  "bind_row (t, a, b, c, d, e) =
     bind_err (bind_param a) (\<lambda>a'.
     bind_err (bind_param b) (\<lambda>b'.
     bind_err (bind_param c) (\<lambda>c'.
     bind_err (bind_param d) (\<lambda>d'.
     bind_err (bind_param e) (\<lambda>e'.
       Inr (t, a', b', c', d', e'))))))"

fun bind_rows :: "('ts \<times> json \<times> json \<times> json \<times> json \<times> json) list \<Rightarrow> error + 'ts row list" where
  "bind_rows [] = Inr []"
| "bind_rows (x # xs) =
     bind_err (bind_row x) (\<lambda>r. bind_err (bind_rows xs) (\<lambda>rs. Inr (r # rs)))"

text \<open>
  \<^verbatim>\<open>with con: con.executemany(INSERT_SQL, data)\<close>: the tuples are inserted in order; an
  exception while binding rolls the transaction back, so the table is then as it was
  before the file.
\<close>

definition executemany :: "('ts \<times> json \<times> json \<times> json \<times> json \<times> json) list \<Rightarrow> 'ts store \<Rightarrow>
    'ts store \<times> error option" where
  "executemany data t =
     (case bind_rows data of
        Inl e \<Rightarrow> (t, Some e)
      | Inr rows \<Rightarrow> (fold insert_row rows t, None))"

text \<open>
  The body of the loop over day files. The content of an entry is \<open>None\<close> when it cannot
  be read or \<^verbatim>\<open>json.loads\<close> rejects its text.
\<close>

definition import_day_file ::
  "(string \<Rightarrow> 'ts option) \<Rightarrow> json option \<Rightarrow> 'ts store \<Rightarrow> 'ts store \<times> error option" where
  "import_day_file fromiso content t =
     (case content of
        None \<Rightarrow> (t, Some JSONDecodeError)
      | Some json_data \<Rightarrow>
          (case day_data fromiso json_data of
             Inl e \<Rightarrow> (t, Some e)
           | Inr data \<Rightarrow> executemany data t))"

text \<open>
  \<^verbatim>\<open>for day_path in sorted(energy_meter_path.glob("*.json"))\<close>: the files are visited in
  the order of their names; a file that raises ends the run, with the files before it
  committed.
\<close>

fun import_day_files ::
  "(string \<Rightarrow> 'ts option) \<Rightarrow> (string \<times> json option) list \<Rightarrow> 'ts store \<Rightarrow>
     'ts store \<times> error option" where
  "import_day_files fromiso [] t = (t, None)"
| "import_day_files fromiso (day_path # rest) t =
     (case import_day_file fromiso (snd day_path) t of
        (t', Some e) \<Rightarrow> (t', Some e)
      | (t', None) \<Rightarrow> import_day_files fromiso rest t')"

text \<open>
  \<^verbatim>\<open>_check_database\<close>: a store file without the table (\<open>None\<close>) gets the empty table and
  its unique index; an existing table is left as it is.
\<close>

definition check_database :: "'ts store option \<Rightarrow> 'ts store" where
  "check_database db = (case db of None \<Rightarrow> [] | Some t \<Rightarrow> t)"

definition IGNORED_PATH :: "string list" where
  "IGNORED_PATH = [''.DS_Store'']"

text \<open>
  The entries of an account directory: a plain file, or a directory with its
  \<^verbatim>\<open>*.json\<close> entries (name and content) and the state of its \<^verbatim>\<open>consumption_data.db\<close>.
  Connecting to a store file below a plain file fails.
\<close>

datatype 'ts meter_entry =
    Meter_File string
  | Meter_Dir string "(string \<times> json option) list" "'ts store option"

datatype 'ts account_entry =
    Account_File string
  | Account_Dir string "'ts meter_entry list"

fun import_meter ::
  "(string \<Rightarrow> 'ts option) \<Rightarrow> 'ts meter_entry \<Rightarrow> 'ts meter_entry \<times> error option" where
  "import_meter fromiso (Meter_File name) =
     (if name \<in> set IGNORED_PATH then (Meter_File name, None)
      else (Meter_File name, Some OperationalError))"
| "import_meter fromiso (Meter_Dir name files db) =
     (if name \<in> set IGNORED_PATH then (Meter_Dir name files db, None)
      else
        (case import_day_files fromiso (sort_key fst files) (check_database db) of
           (t, e) \<Rightarrow> (Meter_Dir name files (Some t), e)))"

text \<open>
  A \<^verbatim>\<open>for\<close> loop over directory entries, each entry carrying its own state: the first
  entry that raises ends the run and the entries after it are not touched.
\<close>

fun for_entries :: "('a \<Rightarrow> 'a \<times> error option) \<Rightarrow> 'a list \<Rightarrow> 'a list \<times> error option" where
  "for_entries body [] = ([], None)"
| "for_entries body (x # xs) =
     (case body x of
        (x', Some e) \<Rightarrow> (x' # xs, Some e)
      | (x', None) \<Rightarrow> (case for_entries body xs of (xs', e) \<Rightarrow> (x' # xs', e)))"

fun import_account ::
  "(string \<Rightarrow> 'ts option) \<Rightarrow> 'ts account_entry \<Rightarrow> 'ts account_entry \<times> error option" where
  "import_account fromiso (Account_File name) = (Account_File name, None)"
| "import_account fromiso (Account_Dir name meters) =
     (case for_entries (import_meter fromiso) meters of
        (meters', e) \<Rightarrow> (Account_Dir name meters', e))"

definition import_data ::
  "(string \<Rightarrow> 'ts option) \<Rightarrow> 'ts account_entry list \<Rightarrow> 'ts account_entry list \<times> error option" where
  "import_data fromiso storage = for_entries (import_account fromiso) storage"

text \<open>The unique index holds in every store below the storage root.\<close>

fun meter_unique :: "'ts meter_entry \<Rightarrow> bool" where
  "meter_unique (Meter_File name) = True"
| "meter_unique (Meter_Dir name files db) =
     (case db of None \<Rightarrow> True | Some t \<Rightarrow> distinct (map fst t))"

fun account_unique :: "'ts account_entry \<Rightarrow> bool" where
  "account_unique (Account_File name) = True"
| "account_unique (Account_Dir name meters) = list_all meter_unique meters"

definition storage_unique :: "'ts account_entry list \<Rightarrow> bool" where
  "storage_unique storage = list_all account_unique storage"

section \<open>The fetcher (smartmeter.py)\<close>

text \<open>
  The functions of this section follow \<^verbatim>\<open>src/src/smartmeter.py\<close>, the current fetcher.
  The older copy \<^verbatim>\<open>src/smartmeter.py\<close> has the same \<^verbatim>\<open>download_consumptions_for_meter\<close>;
  its \<^verbatim>\<open>_login\<close> does not test for status 999, it does not extend the session, and its
  \<^verbatim>\<open>get_consumption_records_for_day\<close> merges the mean profile into the response itself
  instead of into its first element.

  A \<^verbatim>\<open>datetime.date\<close> is its day number: adding \<^verbatim>\<open>timedelta(days=i)\<close> adds \<open>i\<close>, and
  \<^verbatim>\<open>(a - b).days\<close> is the difference. The portal is a function from requests to
  responses, so the same request gets the same answer throughout a run and between two
  runs. A response has a status code and a body; the body is \<open>None\<close> when
  \<^verbatim>\<open>response.json()\<close> cannot decode it.
\<close>

type_synonym day = int

datatype request =
    Login
  | ExtendSessionLifetime
  | GetMeteringPointsByBusinesspartnerId
  | ConsumptionRecord_Day string day
  | ConsumptionRecord_MeanProfileDay string day

datatype response = No_Response | Response nat "json option"

type_synonym remote = "request \<Rightarrow> response"

text \<open>
  Directories are paths below the storage root (the root is \<open>[]\<close>); an account id and a
  metering point id are one path component each. A directory that exists holds its day
  files, keyed by the day whose ISO date names the file.
\<close>

type_synonym path = "string list"

type_synonym dir = "day \<Rightarrow> json option"

type_synonym fs = "path \<Rightarrow> dir option"

text \<open>What a run does to the outside world, in order.\<close>

datatype event =
    Http request
  | Print_Maintenance
  | Log_Error_More_Than_One string day
  | Log_Error_Missing_Data string day
  | Stat path
  | Stat_Day path day
  | Mkdir path
  | Write_Text path day json

record consumption_info =
  account_id :: string
  metering_point_id :: string

text \<open>\<^verbatim>\<open>response.raise_for_status()\<close> raises for the 4xx and 5xx codes only.\<close>

definition raise_for_status :: "nat \<Rightarrow> error option" where
  "raise_for_status status_code =
     (if 400 \<le> status_code \<and> status_code < 600 then Some (HTTPError status_code) else None)"

text \<open>A request followed by \<^verbatim>\<open>raise_for_status\<close>.\<close>

definition send :: "remote \<Rightarrow> request \<Rightarrow> error + nat \<times> json option" where
  "send portal req =
     (case portal req of
        No_Response \<Rightarrow> Inl ConnectionError
      | Response status_code body \<Rightarrow>
          (case raise_for_status status_code of
             Some e \<Rightarrow> Inl e
           | None \<Rightarrow> Inr (status_code, body)))"

definition get_json :: "remote \<Rightarrow> request \<Rightarrow> error + json" where
  "get_json portal req =
     bind_err (send portal req) (\<lambda>r.
       case snd r of None \<Rightarrow> Inl JSONDecodeError | Some j \<Rightarrow> Inr j)"

text \<open>\<^verbatim>\<open>SmartMeter._login\<close>: status 999 is the portal's maintenance mode.\<close>

definition login :: "remote \<Rightarrow> event list \<times> error option" where
  "login portal =
     (case send portal Login of
        Inl e \<Rightarrow> ([Http Login], Some e)
      | Inr r \<Rightarrow>
          (if fst r = 999 then ([Http Login, Print_Maintenance], Some (SystemExit 1))
           else ([Http Login], None)))"

definition extend_session_lifetime :: "remote \<Rightarrow> event list \<times> error option" where
  "extend_session_lifetime portal =
     (case send portal ExtendSessionLifetime of
        Inl e \<Rightarrow> ([Http ExtendSessionLifetime], Some e)
      | Inr r \<Rightarrow> ([Http ExtendSessionLifetime], None))"

text \<open>\<^verbatim>\<open>SmartMeter.__init__\<close>.\<close>

definition SmartMeter_init :: "remote \<Rightarrow> event list \<times> error option" where
  "SmartMeter_init portal =
     (case login portal of
        (evs, Some e) \<Rightarrow> (evs, Some e)
      | (evs, None) \<Rightarrow>
          (case extend_session_lifetime portal of (evs', e) \<Rightarrow> (evs @ evs', e)))"

text \<open>The model \<^verbatim>\<open>ConsumptionInfo\<close> validates that both fields are strings.\<close>

fun ConsumptionInfo :: "json \<Rightarrow> json \<Rightarrow> error + consumption_info" where
  "ConsumptionInfo (JStr a) (JStr m) = Inr \<lparr>account_id = a, metering_point_id = m\<rparr>"
| "ConsumptionInfo _ _ = Inl ValidationError"

fun consumption_infos :: "json list \<Rightarrow> error + consumption_info list" where
  "consumption_infos [] = Inr []"
| "consumption_infos (ci # rest) =
     bind_err (getitem ci ''accountId'') (\<lambda>a.
     bind_err (getitem ci ''meteringPointId'') (\<lambda>m.
     bind_err (ConsumptionInfo a m) (\<lambda>info.
     bind_err (consumption_infos rest) (\<lambda>infos. Inr (info # infos)))))"

definition get_consumption_info :: "remote \<Rightarrow> event list \<times> (error + consumption_info list)" where
  "get_consumption_info portal =
     ([Http GetMeteringPointsByBusinesspartnerId],
      bind_err (get_json portal GetMeteringPointsByBusinesspartnerId) (\<lambda>json_response.
      bind_err (py_iter json_response) consumption_infos))"

text \<open>
  \<^verbatim>\<open>isinstance(consumption_per_day, list) and len(consumption_per_day) > 1\<close>, the test
  before \<^verbatim>\<open>sys.exit(1)\<close>.
\<close>

fun more_than_one :: "json \<Rightarrow> bool" where
  "more_than_one (JArr xs) = (length xs > 1)"
| "more_than_one _ = False"

text \<open>
  \<^verbatim>\<open>consumption_per_day[0]\<close>: the first element of a list or string; on a dict the key
  \<^verbatim>\<open>0\<close>, which a decoded JSON object never has, since its keys are strings.
\<close>

fun getitem_0 :: "json \<Rightarrow> error + json" where
  "getitem_0 (JArr []) = Inl IndexError"
| "getitem_0 (JArr (x # xs)) = Inr x"
| "getitem_0 (JObj kvs) = Inl KeyError_0"
| "getitem_0 (JStr []) = Inl IndexError"
| "getitem_0 (JStr (c # cs)) = Inr (JStr [c])"
| "getitem_0 _ = Inl TypeError"

text \<open>
  \<^verbatim>\<open>record | {key: value}\<close>: defined on a dict only; an existing key keeps its place and
  takes the new value, a new key goes last.
\<close>

fun dict_set :: "(string \<times> json) list \<Rightarrow> string \<Rightarrow> json \<Rightarrow> (string \<times> json) list" where
  "dict_set [] k v = [(k, v)]"
| "dict_set (kv # kvs) k v = (if fst kv = k then (k, v) # kvs else kv # dict_set kvs k v)"

fun dict_or :: "json \<Rightarrow> string \<Rightarrow> json \<Rightarrow> error + json" where
  "dict_or (JObj kvs) k v = Inr (JObj (dict_set kvs k v))"
| "dict_or _ k v = Inl TypeError"

text \<open>\<^verbatim>\<open>SmartMeter.get_consumption_records_for_day\<close>.\<close>

definition get_consumption_records_for_day ::
  "remote \<Rightarrow> string \<Rightarrow> day \<Rightarrow> bool \<Rightarrow> event list \<times> (error + json)" where
  "get_consumption_records_for_day portal metering_point d include_mean_profile =
     (case get_json portal (ConsumptionRecord_Day metering_point d) of
        Inl e \<Rightarrow> ([Http (ConsumptionRecord_Day metering_point d)], Inl e)
      | Inr consumption_per_day \<Rightarrow>
          (if more_than_one consumption_per_day then
             ([Http (ConsumptionRecord_Day metering_point d),
               Log_Error_More_Than_One metering_point d], Inl (SystemExit 1))
           else if \<not> include_mean_profile then
             ([Http (ConsumptionRecord_Day metering_point d)], getitem_0 consumption_per_day)
           else
             (case get_json portal (ConsumptionRecord_MeanProfileDay metering_point d) of
                Inl e \<Rightarrow>
                  ([Http (ConsumptionRecord_Day metering_point d),
                    Http (ConsumptionRecord_MeanProfileDay metering_point d)], Inl e)
              | Inr mean_profile \<Rightarrow>
                  ([Http (ConsumptionRecord_Day metering_point d),
                    Http (ConsumptionRecord_MeanProfileDay metering_point d)],
                   bind_err (getitem_0 consumption_per_day) (\<lambda>first_record.
                     dict_or first_record ''meanProfile'' mean_profile)))))"

text \<open>The truth value of a decoded JSON value, as \<^verbatim>\<open>not\<close> sees it.\<close>

fun truthy :: "json \<Rightarrow> bool" where
  "truthy JNull = False"
| "truthy (JBool b) = b"
| "truthy (JInt i) = (i \<noteq> 0)"
| "truthy (JFloat x) = (x \<noteq> 0)"
| "truthy (JStr s) = (s \<noteq> [])"
| "truthy (JArr xs) = (xs \<noteq> [])"
| "truthy (JObj kvs) = (kvs \<noteq> [])"

text \<open>\<^verbatim>\<open>json_file.exists()\<close> and \<^verbatim>\<open>json_file.write_text(...)\<close> for the file of a day in a
  directory that may itself be missing (\<open>None\<close>).\<close>

definition file_exists :: "dir option \<Rightarrow> day \<Rightarrow> bool" where
  "file_exists storage d = (case storage of None \<Rightarrow> False | Some files \<Rightarrow> files d \<noteq> None)"

definition write_text :: "dir option \<Rightarrow> day \<Rightarrow> json \<Rightarrow> error + dir option" where
  "write_text storage d content =
     (case storage of
        None \<Rightarrow> Inl FileNotFoundError
      | Some files \<Rightarrow> Inr (Some (files(d \<mapsto> content))))"

text \<open>
  \<^verbatim>\<open>[start_date + datetime.timedelta(days=i) for i in range(number_since_measure_start)]\<close>
  with \<^verbatim>\<open>number_since_measure_start = (datetime.date.today() - start_date).days\<close>. A
  negative count gives the empty range.
\<close>

definition days_since :: "day \<Rightarrow> day \<Rightarrow> day list" where
  "days_since today start_date =
     map (\<lambda>i. start_date + int i) [0..<nat (today - start_date)]"

text \<open>The body of the loop of \<^verbatim>\<open>download_consumptions_for_meter\<close>, for one day.\<close>

definition download_day ::
  "remote \<Rightarrow> path \<Rightarrow> string \<Rightarrow> dir option \<Rightarrow> day \<Rightarrow> dir option \<times> event list \<times> error option" where
  "download_day portal storage_path energy_meter storage d =
     (if file_exists storage d then (storage, [Stat_Day storage_path d], None)
      else
        (case get_consumption_records_for_day portal energy_meter d True of
           (evs, Inl e) \<Rightarrow> (storage, Stat_Day storage_path d # evs, Some e)
         | (evs, Inr consumption_records) \<Rightarrow>
             (case getitem consumption_records ''meteredValues'' of
                Inl e \<Rightarrow> (storage, Stat_Day storage_path d # evs, Some e)
              | Inr metered \<Rightarrow>
                  (if \<not> truthy metered then
                     (storage,
                      Stat_Day storage_path d # evs @ [Log_Error_Missing_Data energy_meter d],
                      None)
                   else
                     (case write_text storage d consumption_records of
                        Inl e \<Rightarrow> (storage, Stat_Day storage_path d # evs, Some e)
                      | Inr storage' \<Rightarrow>
                          (storage',
                           Stat_Day storage_path d # evs @
                             [Write_Text storage_path d consumption_records],
                           None))))))"

fun download_days ::
  "remote \<Rightarrow> path \<Rightarrow> string \<Rightarrow> dir option \<Rightarrow> day list \<Rightarrow>
     dir option \<times> event list \<times> error option" where
  "download_days portal storage_path energy_meter storage [] = (storage, [], None)"
| "download_days portal storage_path energy_meter storage (d # ds) =
     (case download_day portal storage_path energy_meter storage d of
        (storage1, evs1, Some e) \<Rightarrow> (storage1, evs1, Some e)
      | (storage1, evs1, None) \<Rightarrow>
          (case download_days portal storage_path energy_meter storage1 ds of
             (storage2, evs2, e) \<Rightarrow> (storage2, evs1 @ evs2, e)))"

definition download_consumptions_for_meter ::
  "remote \<Rightarrow> day \<Rightarrow> path \<Rightarrow> dir option \<Rightarrow> string \<Rightarrow> day \<Rightarrow>
     dir option \<times> event list \<times> error option" where
  "download_consumptions_for_meter portal today storage_path storage energy_meter start_date =
     download_days portal storage_path energy_meter storage (days_since today start_date)"

text \<open>\<^verbatim>\<open>if not d.exists(): d.mkdir()\<close>; \<^verbatim>\<open>mkdir\<close> needs the parent directory.\<close>

definition ensure_dir :: "fs \<Rightarrow> path \<Rightarrow> fs \<times> event list \<times> error option" where
  "ensure_dir files p =
     (if files p \<noteq> None then (files, [Stat p], None)
      else if files (butlast p) = None then (files, [Stat p], Some FileNotFoundError)
      else (files(p \<mapsto> Map.empty), [Stat p, Mkdir p], None))"

text \<open>The loop of \<^verbatim>\<open>main\<close> over the metering points, and \<^verbatim>\<open>main\<close> itself. The current
  date is read once per metering point; \<open>today\<close> is its value, the same for all of them
  in a run that does not pass midnight.\<close>

fun sync_meters ::
  "remote \<Rightarrow> day \<Rightarrow> day \<Rightarrow> fs \<Rightarrow> consumption_info list \<Rightarrow> fs \<times> event list \<times> error option" where
  "sync_meters portal today start_date files [] = (files, [], None)"
| "sync_meters portal today start_date files (ci # rest) =
     (case ensure_dir files [account_id ci] of
        (files1, evs1, Some e) \<Rightarrow> (files1, evs1, Some e)
      | (files1, evs1, None) \<Rightarrow>
          (case ensure_dir files1 [account_id ci, metering_point_id ci] of
             (files2, evs2, Some e) \<Rightarrow> (files2, evs1 @ evs2, Some e)
           | (files2, evs2, None) \<Rightarrow>
               (case download_consumptions_for_meter portal today
                       [account_id ci, metering_point_id ci]
                       (files2 [account_id ci, metering_point_id ci])
                       (metering_point_id ci) start_date of
                  (storage, evs3, Some e) \<Rightarrow>
                    (files2([account_id ci, metering_point_id ci] := storage),
                     evs1 @ evs2 @ evs3, Some e)
                | (storage, evs3, None) \<Rightarrow>
                    (case sync_meters portal today start_date
                            (files2([account_id ci, metering_point_id ci] := storage)) rest of
                       (files3, evs4, e) \<Rightarrow> (files3, evs1 @ evs2 @ evs3 @ evs4, e)))))"

definition main :: "remote \<Rightarrow> day \<Rightarrow> day \<Rightarrow> fs \<Rightarrow> fs \<times> event list \<times> error option" where
  "main portal today measure_start_date files =
     (case SmartMeter_init portal of
        (evs1, Some e) \<Rightarrow> (files, evs1, Some e)
      | (evs1, None) \<Rightarrow>
          (case get_consumption_info portal of
             (evs2, Inl e) \<Rightarrow> (files, evs1 @ evs2, Some e)
           | (evs2, Inr infos) \<Rightarrow>
               (case sync_meters portal today measure_start_date files infos of
                  (files', evs3, e) \<Rightarrow> (files', evs1 @ evs2 @ evs3, e))))"


fun written :: "event list \<Rightarrow> day list" where
  "written [] = []"
| "written (Write_Text p d content # evs) = d # written evs"
| "written (ev # evs) = written evs"

fun requested :: "event list \<Rightarrow> request list" where
  "requested [] = []"
| "requested (Http req # evs) = req # requested evs"
| "requested (ev # evs) = requested evs"

text \<open>The content of the file of a day, \<open>None\<close> when there is no such file.\<close>

definition file_content :: "dir option \<Rightarrow> day \<Rightarrow> json option" where
  "file_content storage d = (case storage of None \<Rightarrow> None | Some files \<Rightarrow> files d)"

section \<open>Example data\<close>

text \<open>
  A parser for the examples: it accepts the quarter-hour timestamps
  \<^verbatim>\<open>2023-01-01T00:00:00\<close>, \<^verbatim>\<open>2023-01-01T00:15:00\<close> and \<^verbatim>\<open>2023-01-01T00:30:00\<close>, which
  \<^verbatim>\<open>datetime.fromisoformat\<close> accepts too, and yields the minute of the day.
\<close>

definition quarter_hours :: "string \<Rightarrow> nat option" where
  "quarter_hours s = map_of
     [(''2023-01-01T00:00:00'', 0), (''2023-01-01T00:15:00'', 15), (''2023-01-01T00:30:00'', 30)] s"

text \<open>The Day Record of the row-correctness example, for two timestamp strings.\<close>

definition example_record :: "string \<Rightarrow> string \<Rightarrow> json" where
  "example_record T1 T2 = JObj
     [(''peakDemandTimes'', JArr [JStr T1, JStr T2]),
      (''meteredValues'', JArr [JFloat 1.1, JFloat 2.2]),
      (''estimatedValues'', JArr [JFloat 0.1, JFloat 0.2]),
      (''meteredPeakDemands'', JArr [JInt 5, JInt 6]),
      (''estimatedPeakDemands'', JArr [JFloat 0.5, JFloat 0.6]),
      (''meanProfile'', JArr [JInt 9, JInt 10])]"

text \<open>A storage root with one account and one metering point, whose store already holds a
  row for the first timestamp of its only day file.\<close>

definition stored_example :: "nat account_entry list" where
  "stored_example =
     [Account_Dir ''account''
        [Meter_Dir ''meter''
           [(''2023-01-01.json'',
             Some (example_record ''2023-01-01T00:00:00'' ''2023-01-01T00:15:00''))]
           (Some [(0, PFloat 7, PNone, PNone, PNone, PNone)])]]"

text \<open>A day file with two timestamps and a single metered value.\<close>

definition mismatched_fields :: "(string \<times> json) list" where
  "mismatched_fields =
     [(''peakDemandTimes'', JArr [JStr ''2023-01-01T00:00:00'', JStr ''2023-01-01T00:15:00'']),
      (''meteredValues'', JArr [JFloat 1.1]),
      (''estimatedValues'', JArr [JFloat 0.1, JFloat 0.2]),
      (''meteredPeakDemands'', JArr [JInt 5, JInt 6]),
      (''estimatedPeakDemands'', JArr [JFloat 0.5, JFloat 0.6]),
      (''meanProfile'', JArr [JInt 9, JInt 10])]"

text \<open>A day file with the five other sequences and no \<^verbatim>\<open>meanProfile\<close> key.\<close>

definition no_mean_profile_fields :: "(string \<times> json) list" where
  "no_mean_profile_fields =
     [(''peakDemandTimes'', JArr [JStr ''2023-01-01T00:00:00'', JStr ''2023-01-01T00:15:00'']),
      (''meteredValues'', JArr [JFloat 1.1, JFloat 2.2]),
      (''estimatedValues'', JArr [JFloat 0.1, JFloat 0.2]),
      (''meteredPeakDemands'', JArr [JInt 5, JInt 6]),
      (''estimatedPeakDemands'', JArr [JFloat 0.5, JFloat 0.6])]"

text \<open>A storage root with one account, one metering point without a store, and one day
  file.\<close>

definition one_file_storage :: "json \<Rightarrow> nat account_entry list" where
  "one_file_storage content =
     [Account_Dir ''account'' [Meter_Dir ''meter'' [(''2023-01-01.json'', Some content)] None]]"

text \<open>Portals: one in maintenance mode, one that answers a day request with two records,
  one that answers with a single object, one that answers with a one-element list.\<close>

definition maintenance_portal :: remote where
  "maintenance_portal req =
     (case req of Login \<Rightarrow> Response 999 None | _ \<Rightarrow> Response 200 (Some (JArr [])))"

definition conflict_portal :: remote where
  "conflict_portal req =
     (case req of
        ConsumptionRecord_Day m d \<Rightarrow>
          Response 200 (Some (JArr [JObj [(''meteredValues'', JArr [JFloat 1.1])],
                                    JObj [(''meteredValues'', JArr [JFloat 2.2])]]))
      | _ \<Rightarrow> Response 200 (Some (JArr [])))"

definition single_object_portal :: remote where
  "single_object_portal req =
     (case req of
        ConsumptionRecord_Day m d \<Rightarrow>
          Response 200 (Some (JObj [(''meteredValues'', JArr [JFloat 1.1])]))
      | _ \<Rightarrow> Response 200 (Some (JArr [JInt 9])))"

definition list_portal :: remote where
  "list_portal req =
     (case req of
        ConsumptionRecord_Day m d \<Rightarrow>
          Response 200 (Some (JArr [JObj [(''meteredValues'', JArr [JFloat 2.2])]]))
      | _ \<Rightarrow> Response 200 (Some (JArr [JInt 9])))"


definition empty_dir :: "dir option" where
  "empty_dir = Some (\<lambda>d. None)"

definition one_day_saved :: "dir option" where
  "one_day_saved = Some ((\<lambda>d. None)(738521 \<mapsto> JObj [(''meteredValues'', JArr [JFloat 1.1])]))"

definition only_root :: fs where
  "only_root p = (if p = [] then Some (\<lambda>d. None) else None)"

section \<open>Properties of the importer\<close>

lemma bind_err_Inr [simp]: "bind_err (Inr x) f = f x"
  by (simp add: bind_err_def)

lemma bind_err_Inl [simp]: "bind_err (Inl e) f = Inl e"
  by (simp add: bind_err_def)

lemma bind_err_eq_Inr: "bind_err m f = Inr y \<longleftrightarrow> (\<exists>x. m = Inr x \<and> f x = Inr y)"
  by (cases m) simp_all

subsection \<open>Rows of a day file\<close>

lemma day_data_example:
  "fromiso T1 = Some t1 \<Longrightarrow> fromiso T2 = Some t2 \<Longrightarrow>
   day_data fromiso (example_record T1 T2) =
     Inr [(t1, JFloat 1.1, JFloat 0.1, JInt 5, JFloat 0.5, JInt 9),
          (t2, JFloat 2.2, JFloat 0.2, JInt 6, JFloat 0.6, JInt 10)]"
  by (simp add: day_data_def example_record_def)

text \<open>
  Claim C8. Importing the Day Record with \<^verbatim>\<open>peakDemandTimes = [T1,T2]\<close>,
  \<^verbatim>\<open>meteredValues = [1.1,2.2]\<close>, \<^verbatim>\<open>estimatedValues = [0.1,0.2]\<close>,
  \<^verbatim>\<open>meteredPeakDemands = [5,6]\<close>, \<^verbatim>\<open>estimatedPeakDemands = [0.5,0.6]\<close> and
  \<^verbatim>\<open>meanProfile = [9,10]\<close> into an empty store produces exactly the two rows
  \<^verbatim>\<open>(T1,1.1,0.1,5,0.5,9)\<close> and \<^verbatim>\<open>(T2,2.2,0.2,6,0.6,10)\<close>, in this order: the six sequences
  are zipped by position. \<open>T1\<close> and \<open>T2\<close> are two timestamps that the parser accepts and
  that the unique index tells apart.
\<close>

theorem row_correctness:
  assumes "fromiso T1 = Some t1" and "fromiso T2 = Some t2" and "t1 \<noteq> t2"
  shows "import_day_file fromiso (Some (example_record T1 T2)) [] =
     ([(t1, PFloat 1.1, PFloat 0.1, PInt 5, PFloat 0.5, PInt 9),
       (t2, PFloat 2.2, PFloat 0.2, PInt 6, PFloat 0.6, PInt 10)], None)"
  using assms
  by (simp add: import_day_file_def day_data_example executemany_def
      insert_row_def timestamps_def)

text \<open>Claim C8 at the timestamps 00:00 and 00:15 of 2023-01-01.\<close>

theorem row_correctness_witness:
  "quarter_hours ''2023-01-01T00:00:00'' = Some 0 \<and>
   quarter_hours ''2023-01-01T00:15:00'' = Some 15 \<and> (0::nat) \<noteq> 15 \<and>
   import_day_file quarter_hours
     (Some (example_record ''2023-01-01T00:00:00'' ''2023-01-01T00:15:00'')) [] =
     ([(0, PFloat 1.1, PFloat 0.1, PInt 5, PFloat 0.5, PInt 9),
       (15, PFloat 2.2, PFloat 0.2, PInt 6, PFloat 0.6, PInt 10)], None)"
  using row_correctness [of quarter_hours "''2023-01-01T00:00:00''" 0 "''2023-01-01T00:15:00''" 15]
  by (simp add: quarter_hours_def)

subsection \<open>Insertion with \<^verbatim>\<open>ON CONFLICT DO NOTHING\<close>\<close>

lemma timestamps_insert_row: "timestamps (insert_row r t) = insert (fst r) (timestamps t)"
  by (auto simp: insert_row_def timestamps_def)

lemma timestamps_fold_insert:
  "timestamps (fold insert_row rows t) = timestamps t \<union> fst ` set rows"
  by (induction rows arbitrary: t) (auto simp: timestamps_insert_row)

lemma fold_insert_absorbed:
  "fst ` set rows \<subseteq> timestamps t \<Longrightarrow> fold insert_row rows t = t"
  by (induction rows arbitrary: t) (auto simp: insert_row_def)

lemma insert_row_present: "fst r \<in> timestamps t \<Longrightarrow> insert_row r t = t"
  by (simp add: insert_row_def)

lemma distinct_insert_row:
  "distinct (map fst t) \<Longrightarrow> distinct (map fst (insert_row r t))"
  by (auto simp: insert_row_def timestamps_def)

lemma distinct_fold_insert:
  "distinct (map fst t) \<Longrightarrow> distinct (map fst (fold insert_row rows t))"
  by (induction rows arbitrary: t) (auto simp: distinct_insert_row)

subsection \<open>A day file acts on every store in the same way\<close>

text \<open>Whether a day file raises, and which rows it offers to the store, does not depend
  on the store.\<close>

lemma import_day_file_cases:
  "(\<exists>e. \<forall>t. import_day_file fromiso content t = (t, Some e)) \<or>
   (\<exists>rows. \<forall>t. import_day_file fromiso content t = (fold insert_row rows t, None))"
proof (cases content)
  case None
  then show ?thesis by (simp add: import_day_file_def)
next
  case (Some json_data)
  show ?thesis
  proof (cases "day_data fromiso json_data")
    case (Inl e)
    with Some show ?thesis by (simp add: import_day_file_def)
  next
    case (Inr data)
    with Some show ?thesis
      by (cases "bind_rows data") (auto simp: import_day_file_def executemany_def)
  qed
qed

lemma import_day_file_grows:
  "timestamps t \<subseteq> timestamps (fst (import_day_file fromiso content t))"
  using import_day_file_cases [of fromiso content]
  by (auto simp: timestamps_fold_insert)

lemma import_day_file_unique:
  "distinct (map fst t) \<Longrightarrow> distinct (map fst (fst (import_day_file fromiso content t)))"
  using import_day_file_cases [of fromiso content]
  by (auto simp: distinct_fold_insert)

lemma import_day_files_grows:
  "timestamps t \<subseteq> timestamps (fst (import_day_files fromiso files t))"
proof (induction files arbitrary: t)
  case Nil
  then show ?case by simp
next
  case (Cons f files)
  obtain t' e where step: "import_day_file fromiso (snd f) t = (t', e)"
    by (cases "import_day_file fromiso (snd f) t")
  have "timestamps t \<subseteq> timestamps t'"
    using import_day_file_grows [of t fromiso "snd f"] step by simp
  with Cons.IH [of t'] step show ?case
    by (cases e) auto
qed

lemma import_day_files_unique:
  "distinct (map fst t) \<Longrightarrow> distinct (map fst (fst (import_day_files fromiso files t)))"
proof (induction files arbitrary: t)
  case Nil
  then show ?case by simp
next
  case (Cons f files)
  obtain t' e where step: "import_day_file fromiso (snd f) t = (t', e)"
    by (cases "import_day_file fromiso (snd f) t")
  have "distinct (map fst t')"
    using import_day_file_unique [OF Cons.prems, of fromiso "snd f"] step by simp
  with Cons.IH [of t'] step show ?case
    by (cases e) auto
qed

text \<open>A store that already holds every timestamp that a run over the files leaves behind is
  not changed by the files, and the run ends in the same way.\<close>

lemma import_day_files_absorbed:
  "timestamps (fst (import_day_files fromiso files t)) \<subseteq> timestamps u \<Longrightarrow>
   import_day_files fromiso files u = (u, snd (import_day_files fromiso files t))"
proof (induction files arbitrary: t)
  case Nil
  then show ?case by simp
next
  case (Cons f files)
  from import_day_file_cases [of fromiso "snd f"] show ?case
  proof
    assume "\<exists>e. \<forall>t. import_day_file fromiso (snd f) t = (t, Some e)"
    then show ?thesis by auto
  next
    assume "\<exists>rows. \<forall>t. import_day_file fromiso (snd f) t = (fold insert_row rows t, None)"
    then obtain rows where
      rows: "\<And>t. import_day_file fromiso (snd f) t = (fold insert_row rows t, None)"
      by blast
    let ?t' = "fold insert_row rows t"
    have sub: "timestamps (fst (import_day_files fromiso files ?t')) \<subseteq> timestamps u"
      using Cons.prems by (simp add: rows)
    have "timestamps ?t' \<subseteq> timestamps u"
      using import_day_files_grows [of ?t' fromiso files] sub by blast
    then have "fst ` set rows \<subseteq> timestamps u"
      by (simp add: timestamps_fold_insert)
    then have "fold insert_row rows u = u"
      by (rule fold_insert_absorbed)
    with Cons.IH [OF sub] show ?thesis
      by (simp add: rows)
  qed
qed

lemma import_day_files_again:
  "import_day_files fromiso files (fst (import_day_files fromiso files t)) =
     import_day_files fromiso files t"
  using import_day_files_absorbed [of fromiso files t "fst (import_day_files fromiso files t)"]
  by (simp add: prod_eq_iff)

subsection \<open>The walk over the storage root\<close>

lemma import_meter_again:
  "import_meter fromiso (fst (import_meter fromiso m)) = import_meter fromiso m"
proof (cases m)
  case (Meter_File name)
  then show ?thesis by simp
next
  case (Meter_Dir name files db)
  obtain t e where r: "import_day_files fromiso (sort_key fst files) (check_database db) = (t, e)"
    by (cases "import_day_files fromiso (sort_key fst files) (check_database db)")
  have "import_day_files fromiso (sort_key fst files) t = (t, e)"
    using import_day_files_again [of fromiso "sort_key fst files" "check_database db"] r by simp
  with r Meter_Dir show ?thesis
    by (simp add: check_database_def)
qed

lemma import_meter_unique:
  "meter_unique m \<Longrightarrow> meter_unique (fst (import_meter fromiso m))"
proof (cases m)
  case (Meter_File name)
  then show ?thesis by simp
next
  case (Meter_Dir name files db)
  assume u: "meter_unique m"
  obtain t e where r: "import_day_files fromiso (sort_key fst files) (check_database db) = (t, e)"
    by (cases "import_day_files fromiso (sort_key fst files) (check_database db)")
  have "distinct (map fst (check_database db))"
    using u Meter_Dir by (simp add: check_database_def split: option.splits)
  then have "distinct (map fst t)"
    using import_day_files_unique [of "check_database db" fromiso "sort_key fst files"] r by simp
  with r u Meter_Dir show ?thesis by simp
qed

lemma for_entries_again:
  assumes "\<And>x. body (fst (body x)) = body x"
  shows "for_entries body (fst (for_entries body xs)) = for_entries body xs"
proof (induction xs)
  case Nil
  then show ?case by simp
next
  case (Cons x xs)
  obtain x' e where bx: "body x = (x', e)" by (cases "body x")
  then have bx': "body x' = (x', e)" using assms [of x] by simp
  obtain xs' e' where r: "for_entries body xs = (xs', e')" by (cases "for_entries body xs")
  with Cons.IH have r': "for_entries body xs' = (xs', e')" by simp
  show ?case using bx bx' r r' by (cases e) auto
qed

lemma for_entries_list_all:
  assumes "\<And>x. P x \<Longrightarrow> P (fst (body x))"
  shows "list_all P xs \<Longrightarrow> list_all P (fst (for_entries body xs))"
proof (induction xs)
  case Nil
  then show ?case by simp
next
  case (Cons x xs)
  obtain x' e where bx: "body x = (x', e)" by (cases "body x")
  obtain xs' e' where r: "for_entries body xs = (xs', e')" by (cases "for_entries body xs")
  have "P x'" using assms [of x] Cons.prems bx by simp
  moreover have "list_all P xs'" using Cons r by simp
  ultimately show ?case using bx r Cons.prems by (cases e) auto
qed

lemma import_account_again:
  "import_account fromiso (fst (import_account fromiso a)) = import_account fromiso a"
proof (cases a)
  case (Account_File name)
  then show ?thesis by simp
next
  case (Account_Dir name meters)
  obtain ms e where r: "for_entries (import_meter fromiso) meters = (ms, e)"
    by (cases "for_entries (import_meter fromiso) meters")
  have "for_entries (import_meter fromiso) (fst (for_entries (import_meter fromiso) meters)) =
        for_entries (import_meter fromiso) meters"
    by (rule for_entries_again) (rule import_meter_again)
  with r have "for_entries (import_meter fromiso) ms = (ms, e)" by simp
  with r Account_Dir show ?thesis by simp
qed

lemma import_account_unique:
  "account_unique a \<Longrightarrow> account_unique (fst (import_account fromiso a))"
proof (cases a)
  case (Account_File name)
  then show ?thesis by simp
next
  case (Account_Dir name meters)
  assume u: "account_unique a"
  obtain ms e where r: "for_entries (import_meter fromiso) meters = (ms, e)"
    by (cases "for_entries (import_meter fromiso) meters")
  have "list_all meter_unique (fst (for_entries (import_meter fromiso) meters))"
    using u Account_Dir by (intro for_entries_list_all import_meter_unique) simp_all
  with r Account_Dir show ?thesis by simp
qed

lemma import_data_again:
  "import_data fromiso (fst (import_data fromiso storage)) = import_data fromiso storage"
  unfolding import_data_def by (rule for_entries_again) (rule import_account_again)

lemma import_data_unique:
  "storage_unique storage \<Longrightarrow> storage_unique (fst (import_data fromiso storage))"
  unfolding storage_unique_def import_data_def
  by (intro for_entries_list_all import_account_unique)

text \<open>
  Claim C1. For every state of the stores and every set of day files, running the import
  over what a first run left behind gives the same stores (hence the same row count) and
  ends in the same way as the first run; stores with at most one row per timestamp keep
  at most one row per timestamp; and inserting a row whose timestamp is already present
  leaves the table as it is: no update, no duplicate.
\<close>

theorem import_idempotent:
  "import_data fromiso (fst (import_data fromiso storage)) = import_data fromiso storage \<and>
   (storage_unique storage \<longrightarrow> storage_unique (fst (import_data fromiso storage))) \<and>
   (fst r \<in> timestamps t \<longrightarrow> insert_row r t = t)"
  by (simp add: import_data_again import_data_unique insert_row_present)

lemma import_stored_example:
  "import_data quarter_hours stored_example =
     ([Account_Dir ''account''
        [Meter_Dir ''meter''
           [(''2023-01-01.json'',
             Some (example_record ''2023-01-01T00:00:00'' ''2023-01-01T00:15:00''))]
           (Some [(0, PFloat 7, PNone, PNone, PNone, PNone),
                  (15, PFloat 2.2, PFloat 0.2, PInt 6, PFloat 0.6, PInt 10)])]], None)"
  by (simp add: import_data_def stored_example_def IGNORED_PATH_def check_database_def
      import_day_file_def day_data_example quarter_hours_def executemany_def
      insert_row_def timestamps_def)

text \<open>Claim C1 on a store that holds a row for 00:00 and a day file with rows for 00:00 and
  00:15: the first run adds the row of 00:15 only, the second run adds nothing.\<close>

theorem import_idempotent_witness:
  "storage_unique stored_example \<and>
   fst (import_data quarter_hours stored_example) =
     [Account_Dir ''account''
        [Meter_Dir ''meter''
           [(''2023-01-01.json'',
             Some (example_record ''2023-01-01T00:00:00'' ''2023-01-01T00:15:00''))]
           (Some [(0, PFloat 7, PNone, PNone, PNone, PNone),
                  (15, PFloat 2.2, PFloat 0.2, PInt 6, PFloat 0.6, PInt 10)])]] \<and>
   import_data quarter_hours (fst (import_data quarter_hours stored_example)) =
     import_data quarter_hours stored_example \<and>
   storage_unique (fst (import_data quarter_hours stored_example)) \<and>
   (0::nat) \<in> timestamps [(0, PFloat 7, PNone, PNone, PNone, PNone)] \<and>
   insert_row (0::nat, PFloat 1.1, PFloat 0.1, PInt 5, PFloat 0.5, PInt 9)
     [(0, PFloat 7, PNone, PNone, PNone, PNone)] = [(0, PFloat 7, PNone, PNone, PNone, PNone)]"
proof -
  have u: "storage_unique stored_example"
    by (simp add: storage_unique_def stored_example_def)
  have m: "fst (0::nat, PFloat 1.1, PFloat 0.1, PInt 5, PFloat 0.5, PInt 9) \<in>
      timestamps [(0, PFloat 7, PNone, PNone, PNone, PNone)]"
    by (simp add: timestamps_def)
  show ?thesis
    using u m import_stored_example
      import_idempotent [of quarter_hours stored_example
        "(0::nat, PFloat 1.1, PFloat 0.1, PInt 5, PFloat 0.5, PInt 9)"
        "[(0, PFloat 7, PNone, PNone, PNone, PNone)]"]
    by simp
qed

subsection \<open>Sequences of different lengths, and a missing key\<close>

lemma parse_times_length:
  "parse_times fromiso ds = Inr ts \<Longrightarrow> length ts = length ds"
proof (induction fromiso ds arbitrary: ts rule: parse_times.induct)
  case (1 fromiso)
  then show ?case by simp
next
  case (2 fromiso s ds)
  then show ?case
    by (auto simp: bind_err_eq_Inr split: option.splits)
qed simp_all

lemma bind_rows_bindable:
  assumes "\<forall>x \<in> set data. \<exists>r. bind_row x = Inr r"
  shows "\<exists>rows. bind_rows data = Inr rows \<and> length rows = length data \<and>
     map fst rows = map fst data"
  using assms
proof (induction data)
  case Nil
  then show ?case by simp
next
  case (Cons x data)
  then obtain r where r: "bind_row x = Inr r" by auto
  from Cons obtain rows where rows: "bind_rows data = Inr rows"
    "length rows = length data" "map fst rows = map fst data" by auto
  have "fst r = fst x"
    using r by (cases x) (auto simp: bind_err_eq_Inr)
  with r rows show ?case by simp
qed

lemma bind_row_bindable:
  assumes "\<exists>p. bind_param a = Inr p" "\<exists>p. bind_param b = Inr p" "\<exists>p. bind_param c = Inr p"
    "\<exists>p. bind_param d = Inr p" "\<exists>p. bind_param e = Inr p"
  shows "\<exists>r. bind_row (t, a, b, c, d, e) = Inr r"
proof -
  from assms obtain a' b' c' d' e' where "bind_param a = Inr a'" "bind_param b = Inr b'"
    "bind_param c = Inr c'" "bind_param d = Inr d'" "bind_param e = Inr e'"
    by blast
  then show ?thesis by simp
qed

lemma zipped_bindable:
  assumes "\<forall>v \<in> set mvs \<union> set evs \<union> set mps \<union> set eps \<union> set mns. \<exists>p. bind_param v = Inr p"
    and "x \<in> set (zip ts (zip mvs (zip evs (zip mps (zip eps mns)))))"
  shows "\<exists>r. bind_row x = Inr r"
proof -
  obtain tm a b c d e where xe: "x = (tm, a, b, c, d, e)" by (cases x) auto
  from assms(2) xe have r1: "(a, b, c, d, e) \<in> set (zip mvs (zip evs (zip mps (zip eps mns))))"
    by (simp add: set_zip_rightD)
  then have r2: "(b, c, d, e) \<in> set (zip evs (zip mps (zip eps mns)))"
    by (rule set_zip_rightD)
  then have r3: "(c, d, e) \<in> set (zip mps (zip eps mns))"
    by (rule set_zip_rightD)
  then have r4: "(d, e) \<in> set (zip eps mns)"
    by (rule set_zip_rightD)
  have "a \<in> set mvs" "b \<in> set evs" "c \<in> set mps" "d \<in> set eps" "e \<in> set mns"
    using set_zip_leftD [OF r1] set_zip_leftD [OF r2] set_zip_leftD [OF r3]
      set_zip_leftD [OF r4] set_zip_rightD [OF r4] by simp_all
  with assms(1) have "\<exists>p. bind_param a = Inr p" "\<exists>p. bind_param b = Inr p"
    "\<exists>p. bind_param c = Inr p" "\<exists>p. bind_param d = Inr p" "\<exists>p. bind_param e = Inr p"
    by blast+
  then show ?thesis
    unfolding xe by (rule bind_row_bindable)
qed

lemma import_one_file:
  "import_data fromiso (one_file_storage content) =
     ([Account_Dir ''account''
         [Meter_Dir ''meter'' [(''2023-01-01.json'', Some content)]
            (Some (fst (import_day_file fromiso (Some content) [])))]],
      snd (import_day_file fromiso (Some content) []))"
  by (simp add: one_file_storage_def import_data_def check_database_def IGNORED_PATH_def
      split: prod.splits option.splits)

text \<open>
  Claim C4 fails on the code. The day file has two timestamps and one metered value; the
  run does not abort, it imports the row of the first timestamp and ends normally.
\<close>

theorem mismatched_lengths_imported:
  "import_data quarter_hours (one_file_storage (JObj mismatched_fields)) =
     ([Account_Dir ''account''
         [Meter_Dir ''meter'' [(''2023-01-01.json'', Some (JObj mismatched_fields))]
            (Some [(0, PFloat 1.1, PFloat 0.1, PInt 5, PFloat 0.5, PInt 9)])]],
      None)"
  by (simp add: import_one_file import_day_file_def day_data_def mismatched_fields_def
      quarter_hours_def executemany_def insert_row_def timestamps_def)

text \<open>
  Claim C4, amended. A day file whose six sequences differ in length is not an error: when
  the six keys hold lists, the timestamps parse and the values can be bound, the importer
  inserts one row per index below the length of the shortest sequence, with the
  timestamps of these indices, and ignores the entries beyond it.
\<close>

theorem mismatched_lengths_truncate:
  assumes "map_of kvs ''peakDemandTimes'' = Some (JArr pts)"
    and "map_of kvs ''meteredValues'' = Some (JArr mvs)"
    and "map_of kvs ''estimatedValues'' = Some (JArr evs)"
    and "map_of kvs ''meteredPeakDemands'' = Some (JArr mps)"
    and "map_of kvs ''estimatedPeakDemands'' = Some (JArr eps)"
    and "map_of kvs ''meanProfile'' = Some (JArr mns)"
    and "parse_times fromiso pts = Inr ts"
    and "\<forall>v \<in> set mvs \<union> set evs \<union> set mps \<union> set eps \<union> set mns. \<exists>p. bind_param v = Inr p"
  shows "\<exists>rows. import_day_file fromiso (Some (JObj kvs)) t = (fold insert_row rows t, None) \<and>
     length rows =
       min (length pts) (min (length mvs) (min (length evs) (min (length mps)
         (min (length eps) (length mns))))) \<and>
     map fst rows = take (length rows) ts"
proof -
  let ?data = "zip ts (zip mvs (zip evs (zip mps (zip eps mns))))"
  have data: "day_data fromiso (JObj kvs) = Inr ?data"
    using assms(1-7) by (simp add: day_data_def)
  have "\<forall>x \<in> set ?data. \<exists>r. bind_row x = Inr r"
    using zipped_bindable [OF assms(8)] by blast
  then have "\<exists>rows. bind_rows ?data = Inr rows \<and> length rows = length ?data \<and>
      map fst rows = map fst ?data"
    by (rule bind_rows_bindable)
  then obtain rows where rows: "bind_rows ?data = Inr rows" "length rows = length ?data"
    "map fst rows = map fst ?data"
    by blast
  have len: "length ?data =
      min (length pts) (min (length mvs) (min (length evs) (min (length mps)
        (min (length eps) (length mns)))))"
    using parse_times_length [OF assms(7)] by (simp only: length_zip)
  have fsts: "map fst ?data = take (length ?data) ts"
    by (simp only: map_fst_zip_take length_zip)
  have imp: "import_day_file fromiso (Some (JObj kvs)) t = (fold insert_row rows t, None)"
    using data rows(1) by (simp add: import_day_file_def executemany_def)
  have l: "length rows =
      min (length pts) (min (length mvs) (min (length evs) (min (length mps)
        (min (length eps) (length mns)))))"
    using rows(2) len by (rule trans)
  have "map fst rows = take (length rows) ts"
    using rows(3) fsts by (simp only: rows(2))
  with imp l show ?thesis by blast
qed

text \<open>Claim C4, amended, on the day file with two timestamps and one metered value: one
  row, for the first timestamp.\<close>

theorem mismatched_lengths_truncate_witness:
  "\<exists>rows. import_day_file quarter_hours (Some (JObj mismatched_fields)) [] =
       (fold insert_row rows [], None) \<and>
     length rows = 1 \<and> map fst rows = [0]"
proof -
  have k1: "map_of mismatched_fields ''peakDemandTimes'' =
      Some (JArr [JStr ''2023-01-01T00:00:00'', JStr ''2023-01-01T00:15:00''])"
    by (simp add: mismatched_fields_def)
  have k2: "map_of mismatched_fields ''meteredValues'' = Some (JArr [JFloat 1.1])"
    by (simp add: mismatched_fields_def)
  have k3: "map_of mismatched_fields ''estimatedValues'' = Some (JArr [JFloat 0.1, JFloat 0.2])"
    by (simp add: mismatched_fields_def)
  have k4: "map_of mismatched_fields ''meteredPeakDemands'' = Some (JArr [JInt 5, JInt 6])"
    by (simp add: mismatched_fields_def)
  have k5: "map_of mismatched_fields ''estimatedPeakDemands'' =
      Some (JArr [JFloat 0.5, JFloat 0.6])"
    by (simp add: mismatched_fields_def)
  have k6: "map_of mismatched_fields ''meanProfile'' = Some (JArr [JInt 9, JInt 10])"
    by (simp add: mismatched_fields_def)
  have p: "parse_times quarter_hours [JStr ''2023-01-01T00:00:00'', JStr ''2023-01-01T00:15:00'']
      = Inr [0, 15]"
    by (simp add: quarter_hours_def)
  have b: "\<forall>v \<in> set [JFloat 1.1] \<union> set [JFloat 0.1, JFloat 0.2] \<union> set [JInt 5, JInt 6] \<union>
      set [JFloat 0.5, JFloat 0.6] \<union> set [JInt 9, JInt 10]. \<exists>p. bind_param v = Inr p"
    by simp
  have "\<exists>rows. import_day_file quarter_hours (Some (JObj mismatched_fields)) [] =
        (fold insert_row rows [], None) \<and>
      length rows =
        min (length [JStr ''2023-01-01T00:00:00'', JStr ''2023-01-01T00:15:00''])
         (min (length [JFloat 1.1]) (min (length [JFloat 0.1, JFloat 0.2])
           (min (length [JInt 5, JInt 6]) (min (length [JFloat 0.5, JFloat 0.6])
             (length [JInt 9, JInt 10]))))) \<and>
      map fst rows = take (length rows) [0, 15]"
    by (rule mismatched_lengths_truncate [OF k1 k2 k3 k4 k5 k6 p b])
  then obtain rows where
    r1: "import_day_file quarter_hours (Some (JObj mismatched_fields)) [] =
          (fold insert_row rows [], None)"
    and r2: "length rows =
        min (length [JStr ''2023-01-01T00:00:00'', JStr ''2023-01-01T00:15:00''])
         (min (length [JFloat 1.1]) (min (length [JFloat 0.1, JFloat 0.2])
           (min (length [JInt 5, JInt 6]) (min (length [JFloat 0.5, JFloat 0.6])
             (length [JInt 9, JInt 10])))))"
    and r3: "map fst rows = take (length rows) [0, 15]"
    by blast
  from r2 have l: "length rows = 1" by simp
  with r3 have m: "map fst rows = [0]" by simp
  show ?thesis
    by (rule exI [of _ rows]) (simp only: r1 l m)
qed

text \<open>
  Claim C6 fails on the code. The day file holds the five other sequences and no
  \<^verbatim>\<open>meanProfile\<close>; the run creates the table and then ends with \<^verbatim>\<open>KeyError\<close>, without a
  row.
\<close>

theorem mean_profile_absent_aborts:
  "import_data quarter_hours (one_file_storage (JObj no_mean_profile_fields)) =
     ([Account_Dir ''account''
         [Meter_Dir ''meter'' [(''2023-01-01.json'', Some (JObj no_mean_profile_fields))]
            (Some [])]],
      Some (KeyError ''meanProfile''))"
  by (simp add: import_one_file import_day_file_def day_data_def no_mean_profile_fields_def
      quarter_hours_def)

lemma day_data_without_mean_profile:
  assumes "map_of kvs ''meanProfile'' = None"
  shows "\<exists>e. day_data fromiso (JObj kvs) = Inl e"
proof -
  have g: "getitem (JObj kvs) ''meanProfile'' = Inl (KeyError ''meanProfile'')"
    using assms by simp
  show ?thesis
    unfolding day_data_def g
    by (simp add: bind_err_def split: sum.splits)
qed

text \<open>
  Claim C6, amended. The importer requires the key \<^verbatim>\<open>meanProfile\<close>: a day file without it
  is a fatal error and leaves the store as it was; when the five other sequences are
  present and the timestamps parse, the error is the \<^verbatim>\<open>KeyError\<close> for \<^verbatim>\<open>meanProfile\<close>.
\<close>

theorem mean_profile_required:
  assumes "map_of kvs ''meanProfile'' = None"
  shows "(\<exists>e. import_day_file fromiso (Some (JObj kvs)) t = (t, Some e)) \<and>
    (map_of kvs ''peakDemandTimes'' = Some (JArr pts) \<and>
     parse_times fromiso pts = Inr ts \<and>
     map_of kvs ''meteredValues'' \<noteq> None \<and>
     map_of kvs ''estimatedValues'' \<noteq> None \<and>
     map_of kvs ''meteredPeakDemands'' \<noteq> None \<and>
     map_of kvs ''estimatedPeakDemands'' \<noteq> None \<longrightarrow>
       import_day_file fromiso (Some (JObj kvs)) t = (t, Some (KeyError ''meanProfile'')))"
proof -
  have first: "\<exists>e. import_day_file fromiso (Some (JObj kvs)) t = (t, Some e)"
    using day_data_without_mean_profile [OF assms, of fromiso]
    by (auto simp: import_day_file_def)
  have "import_day_file fromiso (Some (JObj kvs)) t = (t, Some (KeyError ''meanProfile''))"
    if "map_of kvs ''peakDemandTimes'' = Some (JArr pts)" "parse_times fromiso pts = Inr ts"
      "map_of kvs ''meteredValues'' \<noteq> None" "map_of kvs ''estimatedValues'' \<noteq> None"
      "map_of kvs ''meteredPeakDemands'' \<noteq> None" "map_of kvs ''estimatedPeakDemands'' \<noteq> None"
    using that assms by (auto simp: import_day_file_def day_data_def)
  with first show ?thesis by blast
qed

text \<open>Claim C6, amended, on the day file without \<^verbatim>\<open>meanProfile\<close>.\<close>

theorem mean_profile_required_witness:
  "map_of no_mean_profile_fields ''meanProfile'' = None \<and>
   import_day_file quarter_hours (Some (JObj no_mean_profile_fields)) [] =
     ([], Some (KeyError ''meanProfile''))"
proof -
  have a: "map_of no_mean_profile_fields ''meanProfile'' = None"
    by (simp add: no_mean_profile_fields_def)
  have p: "parse_times quarter_hours [JStr ''2023-01-01T00:00:00'', JStr ''2023-01-01T00:15:00'']
      = Inr [0, 15]"
    by (simp add: quarter_hours_def)
  show ?thesis
    using a p mean_profile_required [OF a, where fromiso = quarter_hours and t = "[]"
        and pts = "[JStr ''2023-01-01T00:00:00'', JStr ''2023-01-01T00:15:00'']"
        and ts = "[0, 15]"]
    by (simp add: no_mean_profile_fields_def)
qed

section \<open>Properties of the fetcher\<close>



lemma days_since_empty: "today \<le> start_date \<Longrightarrow> days_since today start_date = []"
  by (simp add: days_since_def)


lemma written_append: "written (xs @ ys) = written xs @ written ys"
  by (induction xs rule: written.induct) auto

lemma requested_append: "requested (xs @ ys) = requested xs @ requested ys"
  by (induction xs rule: requested.induct) auto

text \<open>The events of one fetch.\<close>

lemma fetch_events:
  "fst (get_consumption_records_for_day portal m d inc) \<in>
     {[Http (ConsumptionRecord_Day m d)],
      [Http (ConsumptionRecord_Day m d), Log_Error_More_Than_One m d],
      [Http (ConsumptionRecord_Day m d), Http (ConsumptionRecord_MeanProfileDay m d)]}"
  by (auto simp: get_consumption_records_for_day_def split: sum.splits)


lemma fetch_written [simp]:
  "written (fst (get_consumption_records_for_day portal m d inc)) = []"
  using fetch_events [of portal m d inc] by auto

lemma fetch_requested:
  "set (requested (fst (get_consumption_records_for_day portal m d inc))) \<subseteq>
     {ConsumptionRecord_Day m d, ConsumptionRecord_MeanProfileDay m d}"
  using fetch_events [of portal m d inc] by auto

text \<open>One iteration of the loop.\<close>

lemma download_day_exists:
  "file_exists storage d \<Longrightarrow>
   download_day portal p m storage d = (storage, [Stat_Day p d], None)"
  by (simp add: download_day_def)


lemma download_day_written:
  "set (written (fst (snd (download_day portal p m storage d)))) \<subseteq> {d}"
proof -
  obtain evs r where f: "get_consumption_records_for_day portal m d True = (evs, r)"
    by (cases "get_consumption_records_for_day portal m d True")
  have "written evs = []"
    using fetch_written [of portal m d True] f by simp
  with f show ?thesis
    by (auto simp: download_day_def written_append split: sum.splits)
qed

lemma download_day_requested:
  assumes "r \<in> set (requested (fst (snd (download_day portal p m storage d))))"
  shows "\<not> file_exists storage d \<and>
    (r = ConsumptionRecord_Day m d \<or> r = ConsumptionRecord_MeanProfileDay m d)"
proof -
  obtain evs res where f: "get_consumption_records_for_day portal m d True = (evs, res)"
    by (cases "get_consumption_records_for_day portal m d True")
  have sub: "set (requested evs) \<subseteq>
      {ConsumptionRecord_Day m d, ConsumptionRecord_MeanProfileDay m d}"
    using fetch_requested [of portal m d True] f by simp
  show ?thesis
  proof (cases "file_exists storage d")
    case True
    with assms show ?thesis by (simp add: download_day_def)
  next
    case False
    with assms f have "r \<in> set (requested evs)"
      by (auto simp: download_day_def requested_append split: sum.splits if_splits)
    with sub False show ?thesis by auto
  qed
qed

lemma download_day_error:
  assumes "snd (snd (download_day portal p m storage d)) \<noteq> None"
  shows "fst (download_day portal p m storage d) = storage"
    and "written (fst (snd (download_day portal p m storage d))) = []"
proof -
  obtain evs r where f: "get_consumption_records_for_day portal m d True = (evs, r)"
    by (cases "get_consumption_records_for_day portal m d True")
  have w: "written evs = []"
    using fetch_written [of portal m d True] f by simp
  from assms f show "fst (download_day portal p m storage d) = storage"
    by (auto simp: download_day_def split: sum.splits if_splits)
  from assms f w show "written (fst (snd (download_day portal p m storage d))) = []"
    by (auto simp: download_day_def written_append split: sum.splits if_splits)
qed

lemma download_day_other:
  "d' \<noteq> d \<Longrightarrow>
   file_exists (fst (download_day portal p m storage d)) d' = file_exists storage d'"
  by (auto simp: download_day_def file_exists_def write_text_def
      split: prod.splits sum.splits option.splits)

lemma download_day_mono:
  "file_exists storage d' \<Longrightarrow> file_exists (fst (download_day portal p m storage d)) d'"
  by (auto simp: download_day_def file_exists_def write_text_def
      split: prod.splits sum.splits option.splits)

text \<open>After an iteration that did not raise, the day is settled: its file exists, or the
  portal has no data for it, and then the iteration is the same from any directory in
  which the file is missing.\<close>

lemma download_day_settled:
  assumes "download_day portal p m storage d = (storage1, evs, None)"
  shows "file_exists storage1 d \<or>
    (written evs = [] \<and>
     (\<forall>s. \<not> file_exists s d \<longrightarrow> download_day portal p m s d = (s, evs, None)))"
proof (cases "file_exists storage d")
  case True
  with assms show ?thesis by (simp add: download_day_def)
next
  case False
  obtain fevs r where f: "get_consumption_records_for_day portal m d True = (fevs, r)"
    by (cases "get_consumption_records_for_day portal m d True")
  have w: "written fevs = []"
    using fetch_written [of portal m d True] f by simp
  from assms False f obtain consumption_records metered where
    r: "r = Inr consumption_records" and
    g: "getitem consumption_records ''meteredValues'' = Inr metered"
    by (auto simp: download_day_def split: sum.splits)
  show ?thesis
  proof (cases "truthy metered")
    case True
    with assms False f r g have "file_exists storage1 d"
      by (auto simp: download_day_def write_text_def file_exists_def split: option.splits)
    then show ?thesis by simp
  next
    case nt: False
    with assms False f r g have evs: "evs = Stat_Day p d # fevs @ [Log_Error_Missing_Data m d]"
      by (simp add: download_day_def)
    have "written evs = []" using w evs by (simp add: written_append)
    moreover have "\<forall>s. \<not> file_exists s d \<longrightarrow> download_day portal p m s d = (s, evs, None)"
      using f r g nt evs by (simp add: download_day_def)
    ultimately show ?thesis by simp
  qed
qed


lemma download_days_mono:
  "file_exists storage d' \<Longrightarrow> file_exists (fst (download_days portal p m storage ds)) d'"
proof (induction ds arbitrary: storage)
  case Nil
  then show ?case by simp
next
  case (Cons d ds)
  obtain s1 evs1 e1 where one: "download_day portal p m storage d = (s1, evs1, e1)"
    by (cases "download_day portal p m storage d") auto
  have ex1: "file_exists s1 d'"
    using download_day_mono [OF Cons.prems, of portal p m d] one by simp
  show ?case
  proof (cases e1)
    case (Some e)
    with one ex1 show ?thesis by simp
  next
    case None
    obtain s2 evs2 e2 where rest: "download_days portal p m s1 ds = (s2, evs2, e2)"
      by (cases "download_days portal p m s1 ds") auto
    with one None Cons.IH [OF ex1] show ?thesis by simp
  qed
qed

lemma download_days_skips:
  assumes "file_exists storage d'"
  shows "d' \<notin> set (written (fst (snd (download_days portal p m storage ds)))) \<and>
    ConsumptionRecord_Day m d' \<notin> set (requested (fst (snd (download_days portal p m storage ds)))) \<and>
    ConsumptionRecord_MeanProfileDay m d' \<notin>
      set (requested (fst (snd (download_days portal p m storage ds))))"
  using assms
proof (induction ds arbitrary: storage)
  case Nil
  then show ?case by simp
next
  case (Cons d ds)
  obtain s1 evs1 e1 where one: "download_day portal p m storage d = (s1, evs1, e1)"
    by (cases "download_day portal p m storage d") auto
  have ex1: "file_exists s1 d'"
    using download_day_mono [OF Cons.prems, of portal p m d] one by simp
  have w1: "d' \<notin> set (written evs1)"
  proof (cases "d' = d")
    case True
    with Cons.prems one have "evs1 = [Stat_Day p d]" by (simp add: download_day_exists)
    then show ?thesis by simp
  next
    case False
    with download_day_written [of portal p m storage d] one show ?thesis by auto
  qed
  have r1: "ConsumptionRecord_Day m d' \<notin> set (requested evs1) \<and>
      ConsumptionRecord_MeanProfileDay m d' \<notin> set (requested evs1)"
    using download_day_requested [of _ portal p m storage d] one Cons.prems by fastforce
  show ?case
  proof (cases e1)
    case (Some e)
    with one w1 r1 show ?thesis by simp
  next
    case None
    obtain s2 evs2 e2 where rest: "download_days portal p m s1 ds = (s2, evs2, e2)"
      by (cases "download_days portal p m s1 ds") auto
    with Cons.IH [OF ex1] one None w1 r1 show ?thesis
      by (simp add: written_append requested_append)
  qed
qed

lemma download_days_again:
  "download_days portal p m (fst (download_days portal p m storage ds)) ds =
     (fst (download_days portal p m storage ds),
      fst (snd (download_days portal p m (fst (download_days portal p m storage ds)) ds)),
      snd (snd (download_days portal p m storage ds))) \<and>
   written (fst (snd (download_days portal p m (fst (download_days portal p m storage ds)) ds))) = []"
proof (induction ds arbitrary: storage)
  case Nil
  then show ?case by simp
next
  case (Cons d ds)
  obtain s1 evs1 e1 where one: "download_day portal p m storage d = (s1, evs1, e1)"
    by (cases "download_day portal p m storage d") auto
  show ?case
  proof (cases e1)
    case (Some e)
    have "s1 = storage" and "written evs1 = []"
      using download_day_error [of portal p m storage d] one Some by simp_all
    with one Some show ?thesis by simp
  next
    case None
    obtain s2 evs2 e2 where rest: "download_days portal p m s1 ds = (s2, evs2, e2)"
      by (cases "download_days portal p m s1 ds") auto
    have final: "fst (download_days portal p m storage (d # ds)) = s2"
      and err: "snd (snd (download_days portal p m storage (d # ds))) = e2"
      using one None rest by simp_all
    have "\<exists>evs'. download_day portal p m s2 d = (s2, evs', None) \<and> written evs' = []"
    proof (cases "file_exists s2 d")
      case True
      then show ?thesis by (simp add: download_day_exists)
    next
      case False
      have "\<not> file_exists s1 d"
        using False download_days_mono [of s1 d portal p m ds] rest by auto
      with download_day_settled [of portal p m storage d s1 evs1] one None False
      show ?thesis by auto
    qed
    then obtain evs' where again1: "download_day portal p m s2 d = (s2, evs', None)"
      and w': "written evs' = []" by blast
    obtain s3 evs3 e3 where rest2: "download_days portal p m s2 ds = (s3, evs3, e3)"
      by (cases "download_days portal p m s2 ds") auto
    from Cons.IH [of s1] rest rest2 have "s3 = s2" "e3 = e2" "written evs3 = []"
      by simp_all
    with final err again1 w' rest2 show ?thesis
      by (simp add: written_append)
  qed
qed

text \<open>
  Claim C2. When the login response has the maintenance status 999, the run ends at once
  with \<^verbatim>\<open>SystemExit\<close> after printing the maintenance notice: the login request is the only
  request of the run (no second attempt, no session extension, no topology discovery, no
  day fetch), and the files are untouched.
\<close>

theorem maintenance_abort:
  "portal Login = Response 999 body \<Longrightarrow>
   main portal today measure_start_date files =
     (files, [Http Login, Print_Maintenance], Some (SystemExit 1))"
  by (simp add: main_def SmartMeter_init_def login_def send_def raise_for_status_def)

text \<open>Claim C2 on a portal in maintenance mode.\<close>

theorem maintenance_abort_witness:
  "maintenance_portal Login = Response 999 None \<and>
   main maintenance_portal 738526 738521 only_root =
     (only_root, [Http Login, Print_Maintenance], Some (SystemExit 1))"
  using maintenance_abort [of maintenance_portal None 738526 738521 only_root]
  by (simp add: maintenance_portal_def)

text \<open>
  Claim C10. When the start date is on or after the current date, the day range is empty
  and the download returns normally: no request, no file written, the directory as it
  was.
\<close>

theorem empty_range:
  "today \<le> start_date \<Longrightarrow>
   download_consumptions_for_meter portal today p storage m start_date = (storage, [], None)"
  by (simp add: download_consumptions_for_meter_def days_since_empty)

text \<open>Claim C10 with the start date five days after the current date.\<close>

theorem empty_range_witness:
  "(738521::int) \<le> 738526 \<and>
   download_consumptions_for_meter list_portal 738521 [''a'', ''m''] empty_dir ''m'' 738526 =
     (empty_dir, [], None)"
  using empty_range [of 738521 738526 list_portal "[''a'', ''m'']" empty_dir "''m''"]
  by simp


text \<open>
  Claim C5 at a response that is a single record object: the code asks for the mean
  profile and then raises \<^verbatim>\<open>KeyError\<close> at \<^verbatim>\<open>consumption_per_day[0]\<close>, instead of
  returning the record.
\<close>

theorem single_object_rejected:
  "get_consumption_records_for_day single_object_portal ''m'' 738521 True =
     ([Http (ConsumptionRecord_Day ''m'' 738521),
       Http (ConsumptionRecord_MeanProfileDay ''m'' 738521)], Inl KeyError_0)"
  by (simp add: get_consumption_records_for_day_def get_json_def send_def raise_for_status_def
      single_object_portal_def bind_err_def)

text \<open>The other response shape, a list with the record as its only element, is accepted,
  and no single object is.\<close>

lemma single_element_sequence_accepted:
  assumes "portal (ConsumptionRecord_Day m d) = Response status (Some (JArr [JObj kvs]))"
    and "portal (ConsumptionRecord_MeanProfileDay m d) = Response status' (Some mean_profile)"
    and "\<not> (400 \<le> status \<and> status < 600)" and "\<not> (400 \<le> status' \<and> status' < 600)"
  shows "snd (get_consumption_records_for_day portal m d True) =
           Inr (JObj (dict_set kvs ''meanProfile'' mean_profile))"
    and "snd (get_consumption_records_for_day portal m d False) = Inr (JObj kvs)"
  using assms
  by (simp_all add: get_consumption_records_for_day_def get_json_def send_def
      raise_for_status_def bind_err_def)

lemma single_object_raises:
  assumes "portal (ConsumptionRecord_Day m d) = Response status (Some (JObj kvs))"
  shows "\<exists>e. snd (get_consumption_records_for_day portal m d inc) = Inl e"
  using assms
  by (auto simp: get_consumption_records_for_day_def get_json_def send_def
      raise_for_status_def bind_err_def split: sum.splits response.splits option.splits)

lemma download_day_keeps:
  "file_exists storage d' \<Longrightarrow>
   file_content (fst (download_day portal p m storage d)) d' = file_content storage d'"
  by (auto simp: download_day_def file_exists_def file_content_def write_text_def
      split: prod.splits sum.splits option.splits)

lemma download_days_keeps:
  "file_exists storage d' \<Longrightarrow>
   file_content (fst (download_days portal p m storage ds)) d' = file_content storage d'"
proof (induction ds arbitrary: storage)
  case Nil
  then show ?case by simp
next
  case (Cons d ds)
  obtain s1 evs1 e1 where one: "download_day portal p m storage d = (s1, evs1, e1)"
    by (cases "download_day portal p m storage d") auto
  have ex1: "file_exists s1 d'"
    using download_day_mono [OF Cons.prems, of portal p m d] one by simp
  have k1: "file_content s1 d' = file_content storage d'"
    using download_day_keeps [OF Cons.prems, of portal p m d] one by simp
  show ?case
  proof (cases e1)
    case (Some e)
    with one k1 show ?thesis by simp
  next
    case None
    obtain s2 evs2 e2 where rest: "download_days portal p m s1 ds = (s2, evs2, e2)"
      by (cases "download_days portal p m s1 ds") auto
    with one None k1 Cons.IH [OF ex1] show ?thesis by simp
  qed
qed




text \<open>
  Claim C9. A day whose file exists is neither requested from the portal nor written, and
  its file keeps its content; and a second run with the same dates against the same
  portal, started from what the first run left, writes no file, leaves the directory as
  it is and ends as the first run did.
\<close>

theorem fetch_idempotent:
  "(file_exists storage d \<longrightarrow>
      (case download_consumptions_for_meter portal today p storage m start_date of
         (storage1, evs, err) \<Rightarrow>
           d \<notin> set (written evs) \<and>
           ConsumptionRecord_Day m d \<notin> set (requested evs) \<and>
           ConsumptionRecord_MeanProfileDay m d \<notin> set (requested evs) \<and>
           file_content storage1 d = file_content storage d)) \<and>
   (case download_consumptions_for_meter portal today p storage m start_date of
      (storage1, evs1, err1) \<Rightarrow>
        (case download_consumptions_for_meter portal today p storage1 m start_date of
           (storage2, evs2, err2) \<Rightarrow>
             written evs2 = [] \<and> storage2 = storage1 \<and> err2 = err1))"
proof -
  let ?ds = "days_since today start_date"
  obtain storage1 evs1 err1 where
    run1: "download_days portal p m storage ?ds = (storage1, evs1, err1)"
    by (cases "download_days portal p m storage ?ds") auto
  obtain storage2 evs2 err2 where
    run2: "download_days portal p m storage1 ?ds = (storage2, evs2, err2)"
    by (cases "download_days portal p m storage1 ?ds") auto
  have skip: "file_exists storage d \<longrightarrow>
      d \<notin> set (written evs1) \<and>
      ConsumptionRecord_Day m d \<notin> set (requested evs1) \<and>
      ConsumptionRecord_MeanProfileDay m d \<notin> set (requested evs1) \<and>
      file_content storage1 d = file_content storage d"
    using download_days_skips [where storage = storage and d' = d and m = m and portal = portal
        and p = p and ds = ?ds]
      download_days_keeps [where storage = storage and d' = d and m = m and portal = portal
        and p = p and ds = ?ds] run1
    by simp
  have again: "written evs2 = [] \<and> storage2 = storage1 \<and> err2 = err1"
    using download_days_again [of portal p m storage ?ds] run1 run2 by simp
  from skip again run1 run2 show ?thesis
    by (simp add: download_consumptions_for_meter_def)
qed

lemma fetch_second_day:
  "download_consumptions_for_meter list_portal 738523 [''a'', ''m''] one_day_saved ''m'' 738521 =
     (Some ((\<lambda>d. None)
        (738521 \<mapsto> JObj [(''meteredValues'', JArr [JFloat 1.1])],
         738522 \<mapsto> JObj [(''meteredValues'', JArr [JFloat 2.2]),
                             (''meanProfile'', JArr [JInt 9])])),
      [Stat_Day [''a'', ''m''] 738521, Stat_Day [''a'', ''m''] 738522,
       Http (ConsumptionRecord_Day ''m'' 738522),
       Http (ConsumptionRecord_MeanProfileDay ''m'' 738522),
       Write_Text [''a'', ''m''] 738522
         (JObj [(''meteredValues'', JArr [JFloat 2.2]), (''meanProfile'', JArr [JInt 9])])],
      None)"
proof -
  have "days_since 738523 738521 = [738521, 738522]"
    by (simp add: days_since_def eval_nat_numeral upt_rec)
  then show ?thesis
    by (simp add: download_consumptions_for_meter_def download_day_def file_exists_def
        one_day_saved_def get_consumption_records_for_day_def get_json_def send_def
        raise_for_status_def list_portal_def bind_err_def write_text_def)
qed

text \<open>Claim C9 with the file of the first day saved: the first run writes the second day
  only, the second run writes nothing.\<close>

theorem fetch_idempotent_witness:
  "file_exists one_day_saved 738521 \<and>
   written (fst (snd (download_consumptions_for_meter list_portal 738523 [''a'', ''m'']
     one_day_saved ''m'' 738521))) = [738522] \<and>
   file_content (fst (download_consumptions_for_meter list_portal 738523 [''a'', ''m'']
     one_day_saved ''m'' 738521)) 738521 = Some (JObj [(''meteredValues'', JArr [JFloat 1.1])]) \<and>
   written (fst (snd (download_consumptions_for_meter list_portal 738523 [''a'', ''m'']
     (fst (download_consumptions_for_meter list_portal 738523 [''a'', ''m'']
        one_day_saved ''m'' 738521)) ''m'' 738521))) = []"
proof -
  have e: "file_exists one_day_saved 738521"
    by (simp add: file_exists_def one_day_saved_def)
  have c: "file_content one_day_saved 738521 = Some (JObj [(''meteredValues'', JArr [JFloat 1.1])])"
    by (simp add: file_content_def one_day_saved_def)
  show ?thesis
    using e c fetch_second_day
      fetch_idempotent [where storage = one_day_saved and d = 738521 and portal = list_portal
        and today = 738523 and p = "[''a'', ''m'']" and m = "''m''" and start_date = 738521]
    by (auto split: prod.splits)
qed

text \<open>
  Claim C7. When the portal answers the request for a day with a list of more than one
  record, the fetch logs the error and raises \<^verbatim>\<open>SystemExit\<close> without asking for the mean
  profile; the iteration of that day leaves the directory as it is; and a run whose
  range contains such a day without a file ends with an error, without a file for that
  day and without having written one.
\<close>

theorem conflict_abort:
  assumes "portal (ConsumptionRecord_Day m d) = Response status (Some (JArr xs))"
    and "\<not> (400 \<le> status \<and> status < 600)"
    and "1 < length xs"
  shows "get_consumption_records_for_day portal m d inc =
       ([Http (ConsumptionRecord_Day m d), Log_Error_More_Than_One m d], Inl (SystemExit 1)) \<and>
     (\<not> file_exists storage d \<longrightarrow>
        download_day portal p m storage d =
          (storage,
           [Stat_Day p d, Http (ConsumptionRecord_Day m d), Log_Error_More_Than_One m d],
           Some (SystemExit 1))) \<and>
     (d \<in> set (days_since today start_date) \<and> \<not> file_exists storage d \<longrightarrow>
        (case download_consumptions_for_meter portal today p storage m start_date of
           (storage', evs, err) \<Rightarrow>
             err \<noteq> None \<and> \<not> file_exists storage' d \<and> d \<notin> set (written evs)))"
proof -
  have fetch: "\<And>inc. get_consumption_records_for_day portal m d inc =
       ([Http (ConsumptionRecord_Day m d), Log_Error_More_Than_One m d], Inl (SystemExit 1))"
    using assms
    by (simp add: get_consumption_records_for_day_def get_json_def send_def
        raise_for_status_def bind_err_def)
  have day: "\<And>s. \<not> file_exists s d \<Longrightarrow>
      download_day portal p m s d =
        (s, [Stat_Day p d, Http (ConsumptionRecord_Day m d), Log_Error_More_Than_One m d],
         Some (SystemExit 1))"
    by (simp add: download_day_def fetch)
  have loop: "d \<in> set ds \<Longrightarrow> \<not> file_exists s d \<Longrightarrow>
      snd (snd (download_days portal p m s ds)) \<noteq> None \<and>
      \<not> file_exists (fst (download_days portal p m s ds)) d \<and>
      d \<notin> set (written (fst (snd (download_days portal p m s ds))))" for ds s
  proof (induction ds arbitrary: s)
    case Nil
    then show ?case by simp
  next
    case (Cons d0 ds)
    show ?case
    proof (cases "d0 = d")
      case True
      with day [OF Cons.prems(2)] show ?thesis
        using Cons.prems(2) by simp
    next
      case False
      obtain s1 evs1 e1 where one: "download_day portal p m s d0 = (s1, evs1, e1)"
        by (cases "download_day portal p m s d0") auto
      have ne1: "\<not> file_exists s1 d"
        using download_day_other [of d d0 portal p m s] False one Cons.prems(2) by simp
      have w1: "d \<notin> set (written evs1)"
        using download_day_written [of portal p m s d0] one False by auto
      show ?thesis
      proof (cases e1)
        case (Some e)
        with one ne1 w1 show ?thesis by simp
      next
        case None
        obtain s2 evs2 e2 where rest: "download_days portal p m s1 ds = (s2, evs2, e2)"
          by (cases "download_days portal p m s1 ds") auto
        have "d \<in> set ds" using Cons.prems(1) False by simp
        from Cons.IH [OF this ne1] rest one None w1 show ?thesis
          by (simp add: written_append)
      qed
    qed
  qed
  have run: "d \<in> set (days_since today start_date) \<and> \<not> file_exists storage d \<longrightarrow>
      (case download_consumptions_for_meter portal today p storage m start_date of
         (storage', evs, err) \<Rightarrow>
           err \<noteq> None \<and> \<not> file_exists storage' d \<and> d \<notin> set (written evs))"
    using loop [of "days_since today start_date" storage]
    by (auto simp: download_consumptions_for_meter_def split: prod.splits)
  from fetch [of inc] day [of storage] run show ?thesis
    by blast
qed

text \<open>Claim C7 on a portal that answers every day request with two records.\<close>

theorem conflict_abort_witness:
  "conflict_portal (ConsumptionRecord_Day ''m'' 738521) =
     Response 200 (Some (JArr [JObj [(''meteredValues'', JArr [JFloat 1.1])],
                               JObj [(''meteredValues'', JArr [JFloat 2.2])]])) \<and>
   738521 \<in> set (days_since 738523 738521) \<and> \<not> file_exists empty_dir 738521 \<and>
   get_consumption_records_for_day conflict_portal ''m'' 738521 True =
     ([Http (ConsumptionRecord_Day ''m'' 738521), Log_Error_More_Than_One ''m'' 738521],
      Inl (SystemExit 1)) \<and>
   snd (snd (download_consumptions_for_meter conflict_portal 738523 [''a'', ''m''] empty_dir ''m''
     738521)) \<noteq> None \<and>
   \<not> file_exists (fst (download_consumptions_for_meter conflict_portal 738523 [''a'', ''m'']
     empty_dir ''m'' 738521)) 738521"
proof -
  have r: "conflict_portal (ConsumptionRecord_Day ''m'' 738521) =
     Response 200 (Some (JArr [JObj [(''meteredValues'', JArr [JFloat 1.1])],
                               JObj [(''meteredValues'', JArr [JFloat 2.2])]]))"
    by (simp add: conflict_portal_def)
  have s: "\<not> (400 \<le> (200::nat) \<and> (200::nat) < 600)" by simp
  have l: "1 < length [JObj [(''meteredValues'', JArr [JFloat 1.1])],
                       JObj [(''meteredValues'', JArr [JFloat 2.2])]]" by simp
  have d: "738521 \<in> set (days_since 738523 738521)"
    by (simp add: days_since_def eval_nat_numeral upt_rec)
  have e: "\<not> file_exists empty_dir 738521"
    by (simp add: file_exists_def empty_dir_def)
  show ?thesis
    using r d e
      conflict_abort [where portal = conflict_portal and m = "''m''" and d = 738521
        and status = 200 and inc = True and storage = empty_dir and p = "[''a'', ''m'']"
        and today = 738523 and start_date = 738521, OF r s l]
    by (simp split: prod.splits)
qed

end
